theory Spec2Isabelle
  imports Main
begin

section \<open>Python values and the builtins the library calls\<close>

text \<open>
  The library (discord.ext.oauth) handles decoded JSON: the payloads of the token endpoint,
  of \<^verbatim>\<open>/users/@me\<close> and of \<^verbatim>\<open>/users/@me/guilds\<close>. A decoded JSON value is \<open>None\<close>, a
  bool, an int, a str, a list or a dict with str keys. A dict is an association list in
  insertion order; a lookup takes the first binding of a key (a real dict binds a key once).
  JSON numbers with a fraction are left out of the model (floating point); a \<open>char\<close>
  stands for a code point below 256.
\<close>

datatype json =
    JNull
  | JBool bool
  | JInt int
  | JStr string
  | JList "json list"
  | JObj "(string \<times> json) list"

text \<open>
  A key used to index a payload: a str, or the tuple \<^verbatim>\<open>("id", 0)\<close> that
  \<^verbatim>\<open>self._data["id", 0]\<close> builds in models.py.
\<close>

datatype pykey = KStr string | KTuple string int

text \<open>
  Modelled from the spec: http.py (HTTPClient, Route) is not among the sources; section 7 of
  the specification names the errors the transport raises.
\<close>

datatype transport_error = TransportError | RateLimitedError | AuthError | ApiError

datatype py_error =
    KeyError pykey
  | TypeError
  | AttributeError
  | ValueError
  | Raised transport_error

text \<open>Truth value of a Python object, as \<^verbatim>\<open>not x\<close> and \<^verbatim>\<open>if x:\<close> test it.\<close>

fun py_truthy :: "json \<Rightarrow> bool" where
  "py_truthy JNull = False"
| "py_truthy (JBool b) = b"
| "py_truthy (JInt i) = (i \<noteq> 0)"
| "py_truthy (JStr s) = (s \<noteq> [])"
| "py_truthy (JList xs) = (xs \<noteq> [])"
| "py_truthy (JObj kvs) = (kvs \<noteq> [])"

text \<open>\<^verbatim>\<open>x.startswith(p)\<close>: only a str has the method.\<close>

fun py_startswith :: "json \<Rightarrow> string \<Rightarrow> py_error + bool" where
  "py_startswith (JStr s) p = Inr (take (length p) s = p)"
| "py_startswith _ p = Inl AttributeError"

text \<open>
  \<^verbatim>\<open>d[k]\<close>: a dict raises KeyError on a key it does not hold (its keys are strs, so it holds
  no tuple); a str or a list takes integer indices only; the other values are not
  subscriptable.
\<close>

fun py_getitem :: "json \<Rightarrow> pykey \<Rightarrow> py_error + json" where
  "py_getitem (JObj kvs) (KStr k) =
     (case map_of kvs k of None \<Rightarrow> Inl (KeyError (KStr k)) | Some v \<Rightarrow> Inr v)"
| "py_getitem (JObj kvs) (KTuple k i) = Inl (KeyError (KTuple k i))"
| "py_getitem _ _ = Inl TypeError"

text \<open>\<^verbatim>\<open>d.get(k, default)\<close>: only a dict has the method.\<close>

fun py_get :: "json \<Rightarrow> string \<Rightarrow> json \<Rightarrow> py_error + json" where
  "py_get (JObj kvs) k d = Inr (case map_of kvs k of None \<Rightarrow> d | Some v \<Rightarrow> v)"
| "py_get _ k d = Inl AttributeError"

text \<open>\<^verbatim>\<open>for x in v\<close>: a list yields its elements, a dict its keys, a str its characters.\<close>

fun py_iter :: "json \<Rightarrow> py_error + json list" where
  "py_iter (JList xs) = Inr xs"
| "py_iter (JObj kvs) = Inr (map (\<lambda>kv. JStr (fst kv)) kvs)"
| "py_iter (JStr s) = Inr (map (\<lambda>c. JStr [c]) s)"
| "py_iter _ = Inl TypeError"

subsection \<open>Formatting: \<^verbatim>\<open>str\<close>, \<^verbatim>\<open>repr\<close> and \<^verbatim>\<open>" ".join\<close>\<close>

fun nat_digits :: "nat \<Rightarrow> string" where
  "nat_digits n = (if n < 10 then [''0123456789'' ! n]
     else nat_digits (n div 10) @ [''0123456789'' ! (n mod 10)])"

declare nat_digits.simps [simp del]

definition str_int :: "int \<Rightarrow> string" where
  "str_int i = (if i < 0 then CHR ''-'' # nat_digits (nat (- i)) else nat_digits (nat i))"

fun join_str :: "string \<Rightarrow> string list \<Rightarrow> string" where
  "join_str sep [] = []"
| "join_str sep [x] = x"
| "join_str sep (x # y # ys) = x @ sep @ join_str sep (y # ys)"

definition hex_digit :: "nat \<Rightarrow> char" where
  "hex_digit n = ''0123456789abcdef'' ! n"

text \<open>
  \<^verbatim>\<open>repr\<close> of a str: single quotes unless the text holds a single and no double quote; the
  quote and the backslash are escaped, tab, newline and return by letter, the other
  non-printable code points as \<^verbatim>\<open>\xNN\<close>.
\<close>

definition repr_char :: "char \<Rightarrow> char \<Rightarrow> string" where
  "repr_char q c =
     (let n = (of_char c :: nat) in
      if c = q \<or> c = CHR 0x5C then [CHR 0x5C, c]
      else if c = CHR 0x09 then [CHR 0x5C, CHR ''t'']
      else if c = CHR 0x0A then [CHR 0x5C, CHR ''n'']
      else if c = CHR 0x0D then [CHR 0x5C, CHR ''r'']
      else if n < 32 \<or> (127 \<le> n \<and> n \<le> 160) \<or> n = 173
        then [CHR 0x5C, CHR ''x'', hex_digit (n div 16), hex_digit (n mod 16)]
      else [c])"

definition repr_str :: "string \<Rightarrow> string" where
  "repr_str s =
     (let q = (if CHR 0x27 \<in> set s \<and> CHR 0x22 \<notin> set s then CHR 0x22 else CHR 0x27)
      in q # concat (map (repr_char q) s) @ [q])"

fun py_repr :: "json \<Rightarrow> string" where
  "py_repr JNull = ''None''"
| "py_repr (JBool b) = (if b then ''True'' else ''False'')"
| "py_repr (JInt i) = str_int i"
| "py_repr (JStr s) = repr_str s"
| "py_repr (JList xs) = ''['' @ join_str '', '' (map py_repr xs) @ '']''"
| "py_repr (JObj kvs) =
     ''{'' @ join_str '', '' (map (\<lambda>kv. repr_str (fst kv) @ '': '' @ py_repr (snd kv)) kvs) @ ''}''"

text \<open>\<^verbatim>\<open>str(x)\<close>, which \<^verbatim>\<open>"{}".format(x)\<close> and an f-string apply: a str is itself.\<close>

fun py_str :: "json \<Rightarrow> string" where
  "py_str (JStr s) = s"
| "py_str v = py_repr v"

text \<open>\<^verbatim>\<open>str\<close> of an \<^verbatim>\<open>Optional[str]\<close>.\<close>

fun str_opt :: "string option \<Rightarrow> string" where
  "str_opt None = ''None''"
| "str_opt (Some s) = s"

subsection \<open>\<^verbatim>\<open>int(x)\<close>\<close>

definition is_space :: "char \<Rightarrow> bool" where
  "is_space c =
     (let n = (of_char c :: nat) in (9 \<le> n \<and> n \<le> 13) \<or> (28 \<le> n \<and> n \<le> 32) \<or> n = 133 \<or> n = 160)"

definition is_digit :: "char \<Rightarrow> bool" where
  "is_digit c = (let n = (of_char c :: nat) in 48 \<le> n \<and> n \<le> 57)"

definition strip :: "string \<Rightarrow> string" where
  "strip s = rev (dropWhile is_space (rev (dropWhile is_space s)))"

text \<open>
  \<^verbatim>\<open>int\<close> of a str strips white space, takes one sign and then decimal digits, single
  underscores allowed between two digits. The flag of \<open>parse_digits\<close> says that the
  character before was a digit. The interpreter's limit on the number of digits of a
  conversion between int and str is not modelled.
\<close>

fun parse_digits :: "string \<Rightarrow> bool \<Rightarrow> nat \<Rightarrow> nat option" where
  "parse_digits [] prev acc = (if prev then Some acc else None)"
| "parse_digits (c # cs) prev acc =
     (if is_digit c then parse_digits cs True (10 * acc + (of_char c - 48))
      else if c = CHR ''_'' \<and> prev then parse_digits cs False acc
      else None)"

definition int_of_str :: "string \<Rightarrow> py_error + int" where
  "int_of_str s =
     (case strip s of
        [] \<Rightarrow> Inl ValueError
      | c # cs \<Rightarrow>
          if c = CHR ''-'' then
            (case parse_digits cs False 0 of None \<Rightarrow> Inl ValueError | Some n \<Rightarrow> Inr (- int n))
          else if c = CHR ''+'' then
            (case parse_digits cs False 0 of None \<Rightarrow> Inl ValueError | Some n \<Rightarrow> Inr (int n))
          else
            (case parse_digits (c # cs) False 0 of None \<Rightarrow> Inl ValueError | Some n \<Rightarrow> Inr (int n)))"

fun py_int :: "json \<Rightarrow> py_error + int" where
  "py_int (JInt i) = Inr i"
| "py_int (JBool b) = Inr (if b then 1 else 0)"
| "py_int (JStr s) = int_of_str s"
| "py_int _ = Inl TypeError"

section \<open>models.py\<close>

subsection \<open>TokenResponse\<close>

record TokenResponse =
  t_data :: json
  access_token :: json
  token_type :: json
  expires_in :: json
  refresh_token :: json
  scope :: json

text \<open>
  \<^verbatim>\<open>TokenResponse.__init__(data)\<close> keeps the payload and reads the five fields with
  \<^verbatim>\<open>self._data[...]\<close>, in this order; the first failing lookup raises.
\<close>

definition TokenResponse_init :: "json \<Rightarrow> py_error + TokenResponse" where
  "TokenResponse_init data =
     (case py_getitem data (KStr ''access_token'') of Inl e \<Rightarrow> Inl e | Inr a \<Rightarrow>
      case py_getitem data (KStr ''token_type'') of Inl e \<Rightarrow> Inl e | Inr tt \<Rightarrow>
      case py_getitem data (KStr ''expires_in'') of Inl e \<Rightarrow> Inl e | Inr ex \<Rightarrow>
      case py_getitem data (KStr ''refresh_token'') of Inl e \<Rightarrow> Inl e | Inr r \<Rightarrow>
      case py_getitem data (KStr ''scope'') of Inl e \<Rightarrow> Inl e | Inr sc \<Rightarrow>
        Inr \<lparr>t_data = data, access_token = a, token_type = tt, expires_in = ex,
             refresh_token = r, scope = sc\<rparr>)"

text \<open>\<^verbatim>\<open>DiscordObject.json\<close>, inherited by TokenResponse: the payload it was built from.\<close>

definition TokenResponse_json :: "TokenResponse \<Rightarrow> json" where
  "TokenResponse_json t = t_data t"

subsection \<open>The asset format\<close>

text \<open>
  The expression \<^verbatim>\<open>None if not h else "gif" if h.startswith("a") else "png"\<close>, which
  \<^verbatim>\<open>User.__init__\<close> and both \<^verbatim>\<open>Guild.__init__\<close> evaluate on the avatar or icon hash.
\<close>

definition asset_format :: "json \<Rightarrow> py_error + string option" where
  "asset_format h =
     (if \<not> py_truthy h then Inr None
      else case py_startswith h ''a'' of
             Inl e \<Rightarrow> Inl e
           | Inr b \<Rightarrow> Inr (Some (if b then ''gif'' else ''png'')))"

subsection \<open>Guild (models.py)\<close>

text \<open>
  The back-reference \<^verbatim>\<open>self.user\<close> is kept as the owning user's \<^verbatim>\<open>id\<close>, by which
  \<^verbatim>\<open>DiscordObject.__eq__\<close> identifies an object.
\<close>

record Guild =
  g_data :: json
  g_icon_hash :: json
  g_icon_format :: "string option"
  g_user :: json
  g_id :: json
  g_name :: json
  g_icon_url :: "string option"
  g_is_user_owner :: json
  g_features :: json

definition Guild_init :: "json \<Rightarrow> json \<Rightarrow> py_error + Guild" where
  "Guild_init data user =
     (case py_get data ''icon'' JNull of Inl e \<Rightarrow> Inl e | Inr icon_hash \<Rightarrow>
      case asset_format icon_hash of Inl e \<Rightarrow> Inl e | Inr icon_format \<Rightarrow>
      case py_getitem data (KTuple ''id'' 0) of Inl e \<Rightarrow> Inl e | Inr i \<Rightarrow>
      case py_getitem data (KStr ''name'') of Inl e \<Rightarrow> Inl e | Inr n \<Rightarrow>
      case py_get data ''owner'' JNull of Inl e \<Rightarrow> Inl e | Inr ow \<Rightarrow>
      case py_get data ''features'' (JList []) of Inl e \<Rightarrow> Inl e | Inr fs \<Rightarrow>
        Inr \<lparr>g_data = data, g_icon_hash = icon_hash, g_icon_format = icon_format,
             g_user = user, g_id = i, g_name = n,
             g_icon_url =
               (case icon_format of
                  None \<Rightarrow> None
                | Some f \<Rightarrow>
                    if f = [] then None
                    else Some (''https://cdn.discordapp.com/icons/'' @ py_str i @ ''/''
                               @ py_str icon_hash @ ''.'' @ f)),
             g_is_user_owner = ow, g_features = fs\<rparr>)"

subsection \<open>User\<close>

text \<open>
  \<^verbatim>\<open>self._http\<close> is a reference to the client's HTTPClient, shared with the client. The
  model keeps that one object outside the record: the methods that use it take it and
  return it.
\<close>

record User =
  u_data :: json
  u_acr :: TokenResponse
  u_avatar_hash :: json
  u_avatar_format :: "string option"
  u_id :: json
  u_name :: json
  avatar_url :: "string option"
  discriminator :: json
  mfa_enabled :: json
  email :: json
  verified :: json
  guilds :: "Guild list"

text \<open>The argument \<^verbatim>\<open>acr\<close>: a TokenResponse, or anything else, handed to TokenResponse.\<close>

datatype acr_arg = AcrToken TokenResponse | AcrData json

definition User_init :: "json \<Rightarrow> acr_arg \<Rightarrow> py_error + User" where
  "User_init data acr =
     (case (case acr of AcrToken t \<Rightarrow> Inr t | AcrData d \<Rightarrow> TokenResponse_init d) of
        Inl e \<Rightarrow> Inl e | Inr tok \<Rightarrow>
      case py_getitem data (KStr ''avatar'') of Inl e \<Rightarrow> Inl e | Inr avatar_hash \<Rightarrow>
      case asset_format avatar_hash of Inl e \<Rightarrow> Inl e | Inr avatar_format \<Rightarrow>
      case py_getitem data (KStr ''id'') of Inl e \<Rightarrow> Inl e | Inr i \<Rightarrow>
      case py_getitem data (KStr ''username'') of Inl e \<Rightarrow> Inl e | Inr n \<Rightarrow>
      case py_getitem data (KStr ''discriminator'') of Inl e \<Rightarrow> Inl e | Inr dc \<Rightarrow>
      case py_get data ''mfa_enabled'' JNull of Inl e \<Rightarrow> Inl e | Inr mfa \<Rightarrow>
      case py_get data ''email'' JNull of Inl e \<Rightarrow> Inl e | Inr em \<Rightarrow>
      case py_get data ''verified'' JNull of Inl e \<Rightarrow> Inl e | Inr ve \<Rightarrow>
        Inr \<lparr>u_data = data, u_acr = tok, u_avatar_hash = avatar_hash,
             u_avatar_format = avatar_format, u_id = i, u_name = n,
             avatar_url =
               (if \<not> py_truthy avatar_hash then None
                else Some (''https://cdn.discordapp.com/avatars/'' @ py_str i @ ''/''
                           @ py_str avatar_hash @ ''.'' @ str_opt avatar_format)),
             discriminator = dc, mfa_enabled = mfa, email = em, verified = ve,
             guilds = []\<rparr>)"

text \<open>The properties \<^verbatim>\<open>User.access_token\<close> and \<^verbatim>\<open>User.refresh_token\<close>.\<close>

definition User_access_token :: "User \<Rightarrow> json" where
  "User_access_token u = access_token (u_acr u)"

definition User_refresh_token :: "User \<Rightarrow> json" where
  "User_refresh_token u = refresh_token (u_acr u)"

section \<open>The transport\<close>

text \<open>
  Modelled from the spec: http.py is not among the sources. Section 4.4 of the
  specification: given a method, a path, an optional body and optional headers, the
  transport performs the call, decodes the JSON response and raises a typed error
  otherwise; it holds the client's configuration (\<^verbatim>\<open>_state_info\<close>). The answer to a
  request is a parameter of the model (\<open>respond\<close>, which sees the requests issued before);
  \<open>sent\<close> is the log of the requests issued.
\<close>

record Route =
  route_method :: string
  route_path :: string

record request =
  req_route :: Route
  req_headers :: "(string \<times> string) list option"
  req_data :: "(string \<times> json) list option"

record HTTPClient =
  state_info :: "(string \<times> json) list"
  sent :: "request list"
  respond :: "request list \<Rightarrow> request \<Rightarrow> py_error + json"

definition HTTPClient_request :: "HTTPClient \<Rightarrow> request \<Rightarrow> (py_error + json) \<times> HTTPClient" where
  "HTTPClient_request h r = (respond h (sent h) r, h\<lparr>sent := sent h @ [r]\<rparr>)"

section \<open>The methods of User that call the transport\<close>

definition refresh_request :: "json \<Rightarrow> json \<Rightarrow> json \<Rightarrow> request" where
  "refresh_request client_id client_secret token =
     \<lparr>req_route = \<lparr>route_method = ''POST'', route_path = ''/oauth2/token''\<rparr>,
      req_headers = None,
      req_data = Some [(''client_id'', client_id), (''client_secret'', client_secret),
                       (''grant_type'', JStr ''refresh_token''), (''refresh_token'', token)]\<rparr>"

text \<open>
  \<^verbatim>\<open>User.refresh\<close>: the result, the transport and the user afterwards. The assignment to
  \<^verbatim>\<open>self._acr\<close> is the last statement before the return.
\<close>

definition User_refresh :: "HTTPClient \<Rightarrow> User \<Rightarrow> (py_error + TokenResponse) \<times> HTTPClient \<times> User" where
  "User_refresh h u =
     (let token = User_refresh_token u in
      case py_getitem (JObj (state_info h)) (KStr ''client_id'') of
        Inl e \<Rightarrow> (Inl e, h, u) | Inr cid \<Rightarrow>
      case py_getitem (JObj (state_info h)) (KStr ''client_secret'') of
        Inl e \<Rightarrow> (Inl e, h, u) | Inr secret \<Rightarrow>
      case HTTPClient_request h (refresh_request cid secret token) of
        (Inl e, h') \<Rightarrow> (Inl e, h', u)
      | (Inr request_data, h') \<Rightarrow>
          (case TokenResponse_init request_data of
             Inl e \<Rightarrow> (Inl e, h', u)
           | Inr token_resp \<Rightarrow> (Inr token_resp, h', u\<lparr>u_acr := token_resp\<rparr>)))"

definition bearer_request :: "string \<Rightarrow> json \<Rightarrow> request" where
  "bearer_request p token =
     \<lparr>req_route = \<lparr>route_method = ''GET'', route_path = p\<rparr>,
      req_headers = Some [(''Authorization'', ''Bearer '' @ py_str token)],
      req_data = None\<rparr>"

text \<open>
  The loop of \<^verbatim>\<open>fetch_guilds\<close>: each element becomes a Guild appended to \<^verbatim>\<open>self.guilds\<close>;
  a constructor that raises leaves the guilds appended so far.
\<close>

fun guilds_loop :: "User \<Rightarrow> json list \<Rightarrow> py_error option \<times> User" where
  "guilds_loop u [] = (None, u)"
| "guilds_loop u (array # rest) =
     (case Guild_init array (u_id u) of
        Inl e \<Rightarrow> (Some e, u)
      | Inr guild \<Rightarrow> guilds_loop (u\<lparr>guilds := guilds u @ [guild]\<rparr>) rest)"

definition User_fetch_guilds :: "HTTPClient \<Rightarrow> User \<Rightarrow> bool \<Rightarrow> (py_error + Guild list) \<times> HTTPClient \<times> User" where
  "User_fetch_guilds h u refresh =
     (if \<not> refresh \<and> guilds u \<noteq> [] then (Inr (guilds u), h, u)
      else
        case HTTPClient_request h (bearer_request ''/users/@me/guilds'' (User_access_token u)) of
          (Inl e, h') \<Rightarrow> (Inl e, h', u)
        | (Inr resp, h') \<Rightarrow>
            (let u0 = u\<lparr>guilds := []\<rparr> in
             case py_iter resp of
               Inl e \<Rightarrow> (Inl e, h', u0)
             | Inr arrays \<Rightarrow>
                 (case guilds_loop u0 arrays of
                    (Some e, u1) \<Rightarrow> (Inl e, h', u1)
                  | (None, u1) \<Rightarrow> (Inr (guilds u1), h', u1))))"

section \<open>client.py\<close>

record OAuth2Client =
  c_id :: int
  c_auth :: string
  c_redirect :: string
  c_scopes :: "string option"
  http :: HTTPClient

text \<open>\<^verbatim>\<open>d[k] = v\<close> and \<^verbatim>\<open>d.update(...)\<close> on a dict in insertion order.\<close>

fun dict_set :: "(string \<times> json) list \<Rightarrow> string \<Rightarrow> json \<Rightarrow> (string \<times> json) list" where
  "dict_set [] k v = [(k, v)]"
| "dict_set (p # ps) k v = (if fst p = k then (k, v) # ps else p # dict_set ps k v)"

fun dict_update :: "(string \<times> json) list \<Rightarrow> (string \<times> json) list \<Rightarrow> (string \<times> json) list" where
  "dict_update d [] = d"
| "dict_update d (p # ps) = dict_update (dict_set d (fst p) (snd p)) ps"

text \<open>
  \<^verbatim>\<open>OAuth2Client.__init__\<close>. \<open>h0\<close> is the transport that \<^verbatim>\<open>HTTPClient()\<close> returns (http.py
  is not among the sources).
\<close>

definition OAuth2Client_init ::
  "int \<Rightarrow> string \<Rightarrow> string \<Rightarrow> string list option \<Rightarrow> HTTPClient \<Rightarrow> OAuth2Client" where
  "OAuth2Client_init client_id client_secret redirect_uri scopes h0 =
     (let sc = (case scopes of None \<Rightarrow> None | Some xs \<Rightarrow> Some (join_str '' '' xs)) in
      \<lparr>c_id = client_id, c_auth = client_secret, c_redirect = redirect_uri, c_scopes = sc,
       http = h0\<lparr>state_info :=
                dict_update (state_info h0)
                  [(''client_id'', JInt client_id), (''client_secret'', JStr client_secret),
                   (''redirect_uri'', JStr redirect_uri),
                   (''scopes'', (case sc of None \<Rightarrow> JNull | Some s \<Rightarrow> JStr s))]\<rparr>\<rparr>)"

definition DISCORD_URL :: string where
  "DISCORD_URL = ''https://discord.com''"

text \<open>
  \<^verbatim>\<open>OAuth2Client.auth(state, prompt)\<close>: \<^verbatim>\<open>if state:\<close> and \<^verbatim>\<open>if prompt:\<close> test the truth
  value, so \<^verbatim>\<open>None\<close> and the empty str both add nothing.
\<close>

definition auth :: "OAuth2Client \<Rightarrow> string option \<Rightarrow> string option \<Rightarrow> string" where
  "auth c state prompt =
     (let client_id = ''client_id='' @ str_int (c_id c);
          redirect_uri = ''redirect_uri='' @ c_redirect c;
          scopes = ''scope='' @ str_opt (c_scopes c);
          response_type = ''response_type=code'';
          url = DISCORD_URL @ ''/api/oauth2/authorize?'' @ client_id @ ''&'' @ redirect_uri
                @ ''&'' @ scopes @ ''&'' @ response_type;
          url1 = (case state of None \<Rightarrow> url
                  | Some s \<Rightarrow> if s \<noteq> [] then url @ ''&state='' @ s else url)
      in case prompt of None \<Rightarrow> url1
         | Some p \<Rightarrow> if p \<noteq> [] then url1 @ ''&prompt='' @ p else url1)"

text \<open>The argument of \<^verbatim>\<open>identify\<close>, \<^verbatim>\<open>Union[str, TokenResponse]\<close>.\<close>

datatype token_arg = TokenStr string | TokenResp TokenResponse

text \<open>
  \<^verbatim>\<open>OAuth2Client.identify(token)\<close>: the header takes the access token (the str itself, or
  the TokenResponse's field); the User is built with \<^verbatim>\<open>acr=token\<close>, the argument as it
  came.
\<close>

definition identify :: "OAuth2Client \<Rightarrow> token_arg \<Rightarrow> (py_error + User) \<times> OAuth2Client" where
  "identify c token =
     (let access_token_value = (case token of TokenResp t \<Rightarrow> access_token t | TokenStr s \<Rightarrow> JStr s) in
      case HTTPClient_request (http c) (bearer_request ''/users/@me'' access_token_value) of
        (Inl e, h') \<Rightarrow> (Inl e, c\<lparr>http := h'\<rparr>)
      | (Inr resp, h') \<Rightarrow>
          (User_init resp (case token of TokenResp t \<Rightarrow> AcrToken t | TokenStr s \<Rightarrow> AcrData (JStr s)),
           c\<lparr>http := h'\<rparr>))"

section \<open>guild.py\<close>

text \<open>
  The second \<^verbatim>\<open>Guild\<close> class, of guild.py: it reads every field with \<^verbatim>\<open>.get\<close> and
  converts the id with \<^verbatim>\<open>int\<close>.
\<close>

record guild_Guild =
  gg_data :: json
  gg_icon_hash :: json
  gg_icon_format :: "string option"
  gg_user :: json
  gg_id :: int
  gg_name :: json
  icon_url :: "string option"
  is_user_owner :: json
  features :: json

definition guild_Guild_init :: "json \<Rightarrow> json \<Rightarrow> py_error + guild_Guild" where
  "guild_Guild_init data user =
     (case py_get data ''icon'' JNull of Inl e \<Rightarrow> Inl e | Inr icon_hash \<Rightarrow>
      case asset_format icon_hash of Inl e \<Rightarrow> Inl e | Inr icon_format \<Rightarrow>
      case py_get data ''id'' (JInt 0) of Inl e \<Rightarrow> Inl e | Inr idv \<Rightarrow>
      case py_int idv of Inl e \<Rightarrow> Inl e | Inr i \<Rightarrow>
      case py_get data ''name'' JNull of Inl e \<Rightarrow> Inl e | Inr n \<Rightarrow>
      case py_get data ''owner'' JNull of Inl e \<Rightarrow> Inl e | Inr ow \<Rightarrow>
      case py_get data ''features'' JNull of Inl e \<Rightarrow> Inl e | Inr fs \<Rightarrow>
        Inr \<lparr>gg_data = data, gg_icon_hash = icon_hash, gg_icon_format = icon_format,
             gg_user = user, gg_id = i, gg_name = n,
             icon_url =
               (case icon_format of
                  None \<Rightarrow> None
                | Some f \<Rightarrow>
                    if f = [] then None
                    else Some (''https://cdn.discordapp.com/icons/'' @ str_int i @ ''/''
                               @ py_str icon_hash @ ''.'' @ f)),
             is_user_owner = ow, features = fs\<rparr>)"

section \<open>Example payloads\<close>

text \<open>
  Concrete payloads, clients and users on which the theorems below are evaluated.
  \<open>ex_http answer\<close> is a transport that gives the same answer to every request;
  \<open>ex_user gs\<close> is the User that \<^verbatim>\<open>User.__init__\<close> builds from \<open>ex_user_payload JNull\<close>
  and \<open>ex_token\<close> (\<open>ex_user_init\<close>), with \<open>gs\<close> assigned to its guild cache.
\<close>

abbreviation ex_token_payload :: "(string \<times> json) list" where
  "ex_token_payload \<equiv>
     [(''access_token'', JStr ''tok1''), (''token_type'', JStr ''Bearer''),
      (''expires_in'', JInt 604800), (''refresh_token'', JStr ''ref1''),
      (''scope'', JStr ''identify guilds'')]"

abbreviation ex_token :: TokenResponse where
  "ex_token \<equiv> \<lparr>t_data = JObj [(''access_token'', JStr ''tok1''), (''token_type'', JStr ''Bearer''),
      (''expires_in'', JInt 604800), (''refresh_token'', JStr ''ref1''),
      (''scope'', JStr ''identify guilds'')],
     access_token = JStr ''tok1'', token_type = JStr ''Bearer'', expires_in = JInt 604800,
     refresh_token = JStr ''ref1'', scope = JStr ''identify guilds''\<rparr>"

abbreviation ex_user_payload :: "json \<Rightarrow> (string \<times> json) list" where
  "ex_user_payload avatar \<equiv>
     [(''id'', JStr ''80351110''), (''username'', JStr ''Nelly''),
      (''discriminator'', JStr ''1337''), (''avatar'', avatar)]"

abbreviation ex_guild_payload :: "json \<Rightarrow> (string \<times> json) list" where
  "ex_guild_payload icon \<equiv>
     [(''id'', JStr ''19703843''), (''name'', JStr ''guild''), (''icon'', icon),
      (''owner'', JBool True)]"

abbreviation ex_http :: "(py_error + json) \<Rightarrow> HTTPClient" where
  "ex_http answer \<equiv> \<lparr>state_info = [], sent = [], respond = (\<lambda>log r. answer)\<rparr>"

abbreviation ex_client :: "string list option \<Rightarrow> (py_error + json) \<Rightarrow> OAuth2Client" where
  "ex_client scopes answer \<equiv> OAuth2Client_init 123 ''s'' ''https://a.test/cb'' scopes (ex_http answer)"

abbreviation ex_token2_payload :: "(string \<times> json) list" where
  "ex_token2_payload \<equiv>
     [(''access_token'', JStr ''tok2''), (''token_type'', JStr ''Bearer''),
      (''expires_in'', JInt 604800), (''refresh_token'', JStr ''ref2''),
      (''scope'', JStr ''identify guilds'')]"

abbreviation ex_guild :: Guild where
  "ex_guild \<equiv> \<lparr>g_data = JObj [], g_icon_hash = JNull, g_icon_format = None,
     g_user = JStr ''80351110'', g_id = JStr ''19703843'', g_name = JStr ''guild'',
     g_icon_url = None, g_is_user_owner = JNull, g_features = JList []\<rparr>"

abbreviation ex_user :: "Guild list \<Rightarrow> User" where
  "ex_user gs \<equiv> \<lparr>u_data = JObj (ex_user_payload JNull), u_acr = ex_token, u_avatar_hash = JNull,
     u_avatar_format = None, u_id = JStr ''80351110'', u_name = JStr ''Nelly'',
     avatar_url = None, discriminator = JStr ''1337'', mfa_enabled = JNull, email = JNull,
     verified = JNull, guilds = gs\<rparr>"

abbreviation ex_refresh_http :: "(py_error + json) \<Rightarrow> HTTPClient" where
  "ex_refresh_http answer \<equiv> http (ex_client (Some [''identify'', ''guilds'']) answer)"

section \<open>Lemmas on the builtins and the constructors\<close>

lemma getitem_present:
  "k \<in> fst ` set m \<Longrightarrow> \<exists>v. py_getitem (JObj m) (KStr k) = Inr v \<and> map_of m k = Some v"
  by (cases "map_of m k") (auto simp: map_of_eq_None_iff)

lemma getitem_absent:
  assumes "k \<notin> fst ` set m"
  shows "py_getitem (JObj m) (KStr k) = Inl (KeyError (KStr k))"
proof -
  from assms have "map_of m k = None" by (simp add: map_of_eq_None_iff)
  then show ?thesis by simp
qed

lemma str_int_ex: "str_int 19703843 = ''19703843''"
  by (simp add: str_int_def nat_digits.simps)

lemma int_of_str_ex: "int_of_str ''19703843'' = Inr 19703843"
  by (simp add: int_of_str_def strip_def is_space_def is_digit_def)

lemma User_init_avatar:
  assumes "User_init (JObj m) acr = Inr u"
  shows "\<exists>h f. map_of m ''avatar'' = Some h \<and> asset_format h = Inr f \<and> u_avatar_hash u = h
           \<and> avatar_url u = (if \<not> py_truthy h then None
               else Some (''https://cdn.discordapp.com/avatars/'' @ py_str (u_id u) @ ''/''
                           @ py_str h @ ''.'' @ str_opt f))"
  using assms unfolding User_init_def
  by (auto split: sum.splits option.splits)

lemma guild_Guild_init_icon:
  assumes "guild_Guild_init (JObj m) usr = Inr g"
  shows "\<exists>f. asset_format (case map_of m ''icon'' of None \<Rightarrow> JNull | Some v \<Rightarrow> v) = Inr f
           \<and> icon_url g = (case f of None \<Rightarrow> None
               | Some x \<Rightarrow> if x = [] then None else
                  Some (''https://cdn.discordapp.com/icons/'' @ str_int (gg_id g) @ ''/''
                           @ py_str (case map_of m ''icon'' of None \<Rightarrow> JNull | Some v \<Rightarrow> v) @ ''.'' @ x))"
  using assms unfolding guild_Guild_init_def
  by (auto split: sum.splits option.splits)

lemma str_int_123: "str_int 123 = ''123''"
  by (simp add: str_int_def nat_digits.simps)

lemma ex_user_init: "User_init (JObj (ex_user_payload JNull)) (AcrToken ex_token) = Inr (ex_user [])"
  by (simp add: User_init_def asset_format_def)

lemma ex_refresh_http_state:
  "map_of (state_info (ex_refresh_http answer)) ''client_id'' = Some (JInt 123)"
  "map_of (state_info (ex_refresh_http answer)) ''client_secret'' = Some (JStr ''s'')"
  "sent (ex_refresh_http answer) = []"
  "respond (ex_refresh_http answer) log r = answer"
  by (simp_all add: OAuth2Client_init_def)

lemma ex_token2_init:
  "TokenResponse_init (JObj ex_token2_payload)
     = Inr \<lparr>t_data = JObj ex_token2_payload, access_token = JStr ''tok2'',
            token_type = JStr ''Bearer'', expires_in = JInt 604800,
            refresh_token = JStr ''ref2'', scope = JStr ''identify guilds''\<rparr>"
  by (simp add: TokenResponse_init_def)

lemma User_refresh_succeeds:
  assumes "map_of (state_info h) ''client_id'' = Some cid"
    and "map_of (state_info h) ''client_secret'' = Some secret"
    and "respond h (sent h) (refresh_request cid secret (User_refresh_token u)) = Inr resp"
    and "TokenResponse_init resp = Inr t"
  shows "User_refresh h u
           = (Inr t, h\<lparr>sent := sent h @ [refresh_request cid secret (User_refresh_token u)]\<rparr>,
              u\<lparr>u_acr := t\<rparr>)"
  using assms by (simp add: User_refresh_def HTTPClient_request_def)

lemma fetch_guilds_constructor_error_clears_cache:
  "User_fetch_guilds (ex_refresh_http (Inr (JList [JObj (ex_guild_payload JNull)])))
       (ex_user [ex_guild]) True
     = (Inl (KeyError (KTuple ''id'' 0)),
        (ex_refresh_http (Inr (JList [JObj (ex_guild_payload JNull)])))
          \<lparr>sent := [bearer_request ''/users/@me/guilds'' (JStr ''tok1'')]\<rparr>,
        ex_user [])"
  by (simp add: User_fetch_guilds_def HTTPClient_request_def ex_refresh_http_state
        User_access_token_def Guild_init_def asset_format_def)

lemma Guild_init_dict:
  "Guild_init (JObj m) usr =
     (case asset_format (case map_of m ''icon'' of None \<Rightarrow> JNull | Some v \<Rightarrow> v) of
        Inl e \<Rightarrow> Inl e | Inr f \<Rightarrow> Inl (KeyError (KTuple ''id'' 0)))"
  by (simp add: Guild_init_def split: sum.splits)

lemma Guild_init_raises: "\<exists>e. Guild_init data usr = Inl e"
  by (cases data) (auto simp: Guild_init_def split: sum.splits)

lemma asset_format_cases:
  "asset_format v = (if \<not> py_truthy v then Inr None
      else case v of JStr s \<Rightarrow> Inr (Some (if take 1 s = ''a'' then ''gif'' else ''png''))
           | _ \<Rightarrow> Inl AttributeError)"
  by (cases v) (simp_all add: asset_format_def)

lemma guilds_loop_raises:
  "\<exists>e. guilds_loop u (x # xs) = (Some e, u)"
  using Guild_init_raises[of x "u_id u"] by auto

lemma identify_request:
  "sent (http (snd (identify c token)))
     = sent (http c)
       @ [bearer_request ''/users/@me''
            (case token of TokenResp t \<Rightarrow> access_token t | TokenStr s \<Rightarrow> JStr s)]"
  by (auto simp: identify_def HTTPClient_request_def Let_def split: sum.splits token_arg.splits)

lemma bearer_request_header:
  "req_route (bearer_request p (JStr s)) = \<lparr>route_method = ''GET'', route_path = p\<rparr>
   \<and> req_headers (bearer_request p (JStr s)) = Some [(''Authorization'', ''Bearer '' @ s)]"
  by (simp add: bearer_request_def)

lemma identify_TokenResponse:
  assumes "respond (http c) (sent (http c)) (bearer_request ''/users/@me'' (access_token t)) = Inr resp"
    and "User_init resp (AcrToken t) = Inr u"
  shows "fst (identify c (TokenResp t)) = Inr u \<and> u_acr u = t \<and> u_data u = resp"
  using assms
  by (auto simp: identify_def HTTPClient_request_def User_init_def split: sum.splits)

lemma TokenResponse_init_str: "TokenResponse_init (JStr s) = Inl TypeError"
  by (simp add: TokenResponse_init_def)

lemma identify_str_raises:
  assumes "respond (http c) (sent (http c)) (bearer_request ''/users/@me'' (JStr s)) = Inr resp"
  shows "fst (identify c (TokenStr s)) = Inl TypeError"
  using assms
  by (simp add: identify_def HTTPClient_request_def User_init_def TokenResponse_init_str)

section \<open>The claims\<close>

subsection \<open>C1: avatar and icon URLs\<close>

text \<open>
  C1, as the specification states it, gives the extension \<open>png\<close> to the hash \<open>abc123\<close>,
  and the URL None to every payload without a hash, for User and Guild alike.
  \<^verbatim>\<open>User.__init__\<close> and \<^verbatim>\<open>Guild.__init__\<close> (guild.py) test \<^verbatim>\<open>startswith("a")\<close>, and
  \<open>abc123\<close> starts with \<open>a\<close>: both derive a URL that ends in \<open>.gif\<close>. And
  \<^verbatim>\<open>User.__init__\<close> reads \<^verbatim>\<open>self._data["avatar"]\<close>, where Guild reads
  \<^verbatim>\<open>self._data.get("icon")\<close>: a User payload without the key \<open>avatar\<close> raises KeyError.
\<close>

theorem asset_url_counterexample:
  "map_sum id avatar_url (User_init (JObj (ex_user_payload (JStr ''abc123''))) (AcrToken ex_token))
     = Inr (Some ''https://cdn.discordapp.com/avatars/80351110/abc123.gif'')
   \<and> map_sum id icon_url (guild_Guild_init (JObj (ex_guild_payload (JStr ''abc123''))) (JStr ''80351110''))
     = Inr (Some ''https://cdn.discordapp.com/icons/19703843/abc123.gif'')
   \<and> User_init (JObj [(''id'', JStr ''80351110''), (''username'', JStr ''Nelly''),
                       (''discriminator'', JStr ''1337'')]) (AcrToken ex_token)
     = Inl (KeyError (KStr ''avatar''))"
  by (simp add: User_init_def guild_Guild_init_def asset_format_def str_int_ex int_of_str_ex)

text \<open>
  C1, amended. For every User payload on which \<^verbatim>\<open>User.__init__\<close> succeeds (it holds the
  key \<open>avatar\<close>): when the value of \<open>avatar\<close> is null or the empty str, \<open>avatar_url\<close> is
  None; when the hash starts with
  \<open>a_\<close> (as \<open>a_abc123\<close> does), \<open>avatar_url\<close> is the CDN URL of the user's id and the hash
  with the extension \<open>gif\<close>; when the hash does not start with \<open>a\<close>, the extension is
  \<open>png\<close>. For every Guild payload on which \<^verbatim>\<open>Guild.__init__\<close> of guild.py succeeds the
  same holds of \<open>icon_url\<close>, and a payload without the key \<open>icon\<close> has \<open>icon_url\<close> None
  as well.
\<close>

theorem asset_url_derivation:
  "(User_init (JObj m) acr = Inr u \<longrightarrow>
      (map_of m ''avatar'' = Some JNull \<or> map_of m ''avatar'' = Some (JStr []) \<longrightarrow>
         avatar_url u = None) \<and>
      (\<forall>s. map_of m ''avatar'' = Some (JStr (CHR ''a'' # CHR ''_'' # s)) \<longrightarrow>
         avatar_url u = Some (''https://cdn.discordapp.com/avatars/'' @ py_str (u_id u)
                              @ ''/a_'' @ s @ ''.gif'')) \<and>
      (\<forall>c s. c \<noteq> CHR ''a'' \<and> map_of m ''avatar'' = Some (JStr (c # s)) \<longrightarrow>
         avatar_url u = Some (''https://cdn.discordapp.com/avatars/'' @ py_str (u_id u)
                              @ ''/'' @ c # s @ ''.png''))) \<and>
   (guild_Guild_init (JObj m') usr = Inr g \<longrightarrow>
      (map_of m' ''icon'' = None \<or> map_of m' ''icon'' = Some JNull
         \<or> map_of m' ''icon'' = Some (JStr []) \<longrightarrow> icon_url g = None) \<and>
      (\<forall>s. map_of m' ''icon'' = Some (JStr (CHR ''a'' # CHR ''_'' # s)) \<longrightarrow>
         icon_url g = Some (''https://cdn.discordapp.com/icons/'' @ str_int (gg_id g)
                            @ ''/a_'' @ s @ ''.gif'')) \<and>
      (\<forall>c s. c \<noteq> CHR ''a'' \<and> map_of m' ''icon'' = Some (JStr (c # s)) \<longrightarrow>
         icon_url g = Some (''https://cdn.discordapp.com/icons/'' @ str_int (gg_id g)
                            @ ''/'' @ c # s @ ''.png'')))"
proof (intro conjI impI)
  assume ok: "User_init (JObj m) acr = Inr u"
  from User_init_avatar[OF ok] obtain h f where
    h: "map_of m ''avatar'' = Some h" and f: "asset_format h = Inr f"
    and url: "avatar_url u = (if \<not> py_truthy h then None
               else Some (''https://cdn.discordapp.com/avatars/'' @ py_str (u_id u) @ ''/''
                           @ py_str h @ ''.'' @ str_opt f))" by blast
  show "avatar_url u = None"
    if "map_of m ''avatar'' = Some JNull \<or> map_of m ''avatar'' = Some (JStr [])"
    using that h url by auto
  show "\<forall>s. map_of m ''avatar'' = Some (JStr (CHR ''a'' # CHR ''_'' # s)) \<longrightarrow>
         avatar_url u = Some (''https://cdn.discordapp.com/avatars/'' @ py_str (u_id u)
                              @ ''/a_'' @ s @ ''.gif'')"
    using h f url by (auto simp: asset_format_def)
  show "\<forall>c s. c \<noteq> CHR ''a'' \<and> map_of m ''avatar'' = Some (JStr (c # s)) \<longrightarrow>
         avatar_url u = Some (''https://cdn.discordapp.com/avatars/'' @ py_str (u_id u)
                              @ ''/'' @ c # s @ ''.png'')"
    using h f url by (auto simp: asset_format_def)
next
  assume ok: "guild_Guild_init (JObj m') usr = Inr g"
  from guild_Guild_init_icon[OF ok] obtain f where
    f: "asset_format (case map_of m' ''icon'' of None \<Rightarrow> JNull | Some v \<Rightarrow> v) = Inr f"
    and url: "icon_url g = (case f of None \<Rightarrow> None
               | Some x \<Rightarrow> if x = [] then None else
                  Some (''https://cdn.discordapp.com/icons/'' @ str_int (gg_id g) @ ''/''
                           @ py_str (case map_of m' ''icon'' of None \<Rightarrow> JNull | Some v \<Rightarrow> v) @ ''.'' @ x))"
    by blast
  show "icon_url g = None"
    if "map_of m' ''icon'' = None \<or> map_of m' ''icon'' = Some JNull
         \<or> map_of m' ''icon'' = Some (JStr [])"
    using that f url by (auto simp: asset_format_def)
  show "\<forall>s. map_of m' ''icon'' = Some (JStr (CHR ''a'' # CHR ''_'' # s)) \<longrightarrow>
         icon_url g = Some (''https://cdn.discordapp.com/icons/'' @ str_int (gg_id g)
                            @ ''/a_'' @ s @ ''.gif'')"
    using f url by (auto simp: asset_format_def)
  show "\<forall>c s. c \<noteq> CHR ''a'' \<and> map_of m' ''icon'' = Some (JStr (c # s)) \<longrightarrow>
         icon_url g = Some (''https://cdn.discordapp.com/icons/'' @ str_int (gg_id g)
                            @ ''/'' @ c # s @ ''.png'')"
    using f url by (auto simp: asset_format_def)
qed


theorem asset_url_derivation_witness:
  "(\<exists>u. User_init (JObj (ex_user_payload JNull)) (AcrToken ex_token) = Inr u \<and> avatar_url u = None)
   \<and> (\<exists>u. User_init (JObj (ex_user_payload (JStr ''a_abc123''))) (AcrToken ex_token) = Inr u
          \<and> avatar_url u = Some ''https://cdn.discordapp.com/avatars/80351110/a_abc123.gif'')
   \<and> (\<exists>u. User_init (JObj (ex_user_payload (JStr ''bcd123''))) (AcrToken ex_token) = Inr u
          \<and> avatar_url u = Some ''https://cdn.discordapp.com/avatars/80351110/bcd123.png'')
   \<and> (\<exists>g. guild_Guild_init (JObj [(''id'', JStr ''19703843''), (''name'', JStr ''guild'')]) (JStr ''80351110'') = Inr g
          \<and> icon_url g = None)
   \<and> (\<exists>g. guild_Guild_init (JObj (ex_guild_payload (JStr ''a_abc123''))) (JStr ''80351110'') = Inr g
          \<and> icon_url g = Some ''https://cdn.discordapp.com/icons/19703843/a_abc123.gif'')
   \<and> (\<exists>g. guild_Guild_init (JObj (ex_guild_payload (JStr ''bcd123''))) (JStr ''80351110'') = Inr g
          \<and> icon_url g = Some ''https://cdn.discordapp.com/icons/19703843/bcd123.png'')"
proof (intro conjI)
  obtain u where ok: "User_init (JObj (ex_user_payload JNull)) (AcrToken ex_token) = Inr u"
    by (simp add: User_init_def asset_format_def)
  from asset_url_derivation[where m = "ex_user_payload JNull" and acr = "AcrToken ex_token" and u = u] ok
  have "avatar_url u = None" by simp
  with ok show "\<exists>u. User_init (JObj (ex_user_payload JNull)) (AcrToken ex_token) = Inr u \<and> avatar_url u = None"
    by blast
next
  obtain u where ok: "User_init (JObj (ex_user_payload (JStr ''a_abc123''))) (AcrToken ex_token) = Inr u"
    by (simp add: User_init_def asset_format_def)
  then have i: "u_id u = JStr ''80351110''"
    by (auto simp: User_init_def asset_format_def)
  from asset_url_derivation[where m = "ex_user_payload (JStr ''a_abc123'')" and acr = "AcrToken ex_token" and u = u] ok i
  have "avatar_url u = Some ''https://cdn.discordapp.com/avatars/80351110/a_abc123.gif''" by simp
  with ok show "\<exists>u. User_init (JObj (ex_user_payload (JStr ''a_abc123''))) (AcrToken ex_token) = Inr u
          \<and> avatar_url u = Some ''https://cdn.discordapp.com/avatars/80351110/a_abc123.gif''"
    by blast
next
  obtain u where ok: "User_init (JObj (ex_user_payload (JStr ''bcd123''))) (AcrToken ex_token) = Inr u"
    by (simp add: User_init_def asset_format_def)
  then have i: "u_id u = JStr ''80351110''"
    by (auto simp: User_init_def asset_format_def)
  from asset_url_derivation[where m = "ex_user_payload (JStr ''bcd123'')" and acr = "AcrToken ex_token" and u = u] ok i
  have "avatar_url u = Some ''https://cdn.discordapp.com/avatars/80351110/bcd123.png''" by simp
  with ok show "\<exists>u. User_init (JObj (ex_user_payload (JStr ''bcd123''))) (AcrToken ex_token) = Inr u
          \<and> avatar_url u = Some ''https://cdn.discordapp.com/avatars/80351110/bcd123.png''"
    by blast
next
  obtain g where ok: "guild_Guild_init (JObj [(''id'', JStr ''19703843''), (''name'', JStr ''guild'')]) (JStr ''80351110'') = Inr g"
    by (simp add: guild_Guild_init_def asset_format_def int_of_str_ex)
  from asset_url_derivation[where m' = "[(''id'', JStr ''19703843''), (''name'', JStr ''guild'')]" and usr = "JStr ''80351110''" and g = g] ok
  have "icon_url g = None" by simp
  with ok show "\<exists>g. guild_Guild_init (JObj [(''id'', JStr ''19703843''), (''name'', JStr ''guild'')]) (JStr ''80351110'') = Inr g
          \<and> icon_url g = None"
    by blast
next
  obtain g where ok: "guild_Guild_init (JObj (ex_guild_payload (JStr ''a_abc123''))) (JStr ''80351110'') = Inr g"
    by (simp add: guild_Guild_init_def asset_format_def int_of_str_ex)
  then have i: "gg_id g = 19703843"
    by (auto simp: guild_Guild_init_def asset_format_def int_of_str_ex)
  from asset_url_derivation[where m' = "ex_guild_payload (JStr ''a_abc123'')" and usr = "JStr ''80351110''" and g = g] ok i
  have "icon_url g = Some ''https://cdn.discordapp.com/icons/19703843/a_abc123.gif''"
    by (simp add: str_int_ex)
  with ok show "\<exists>g. guild_Guild_init (JObj (ex_guild_payload (JStr ''a_abc123''))) (JStr ''80351110'') = Inr g
          \<and> icon_url g = Some ''https://cdn.discordapp.com/icons/19703843/a_abc123.gif''"
    by blast
next
  obtain g where ok: "guild_Guild_init (JObj (ex_guild_payload (JStr ''bcd123''))) (JStr ''80351110'') = Inr g"
    by (simp add: guild_Guild_init_def asset_format_def int_of_str_ex)
  then have i: "gg_id g = 19703843"
    by (auto simp: guild_Guild_init_def asset_format_def int_of_str_ex)
  from asset_url_derivation[where m' = "ex_guild_payload (JStr ''bcd123'')" and usr = "JStr ''80351110''" and g = g] ok i
  have "icon_url g = Some ''https://cdn.discordapp.com/icons/19703843/bcd123.png''"
    by (simp add: str_int_ex)
  with ok show "\<exists>g. guild_Guild_init (JObj (ex_guild_payload (JStr ''bcd123''))) (JStr ''80351110'') = Inr g
          \<and> icon_url g = Some ''https://cdn.discordapp.com/icons/19703843/bcd123.png''"
    by blast
qed

subsection \<open>C2: identify\<close>

text \<open>
  C2. \<^verbatim>\<open>identify\<close> takes a TokenResponse or an access-token str and issues
  \<^verbatim>\<open>GET /users/@me\<close> with the header \<^verbatim>\<open>Authorization: Bearer <access_token>\<close>
  (\<open>identify_request\<close>, \<open>bearer_request_header\<close>). With a TokenResponse a successful response
  gives the User that holds that TokenResponse (\<open>identify_TokenResponse\<close>). With a str the
  request goes out as well, but \<^verbatim>\<open>User(..., acr=token)\<close> hands the str to
  \<^verbatim>\<open>TokenResponse(data=acr)\<close>, whose \<^verbatim>\<open>self._data["access_token"]\<close> indexes a str with a
  str: TypeError, on every successful response (\<open>identify_str_raises\<close>). Evaluated on the
  token \<open>tok1\<close> and a transport that answers with a user payload:
\<close>

theorem identify_str_token_raises:
  "fst (identify (ex_client (Some [''identify'']) (Inr (JObj (ex_user_payload JNull)))) (TokenStr ''tok1''))
     = Inl TypeError
   \<and> sent (http (snd (identify (ex_client (Some [''identify'']) (Inr (JObj (ex_user_payload JNull))))
                      (TokenStr ''tok1''))))
     = [\<lparr>req_route = \<lparr>route_method = ''GET'', route_path = ''/users/@me''\<rparr>,
         req_headers = Some [(''Authorization'', ''Bearer tok1'')], req_data = None\<rparr>]
   \<and> fst (identify (ex_client (Some [''identify'']) (Inr (JObj (ex_user_payload JNull)))) (TokenResp ex_token))
     = Inr (ex_user [])"
  by (simp add: identify_def HTTPClient_request_def User_init_def TokenResponse_init_def
        OAuth2Client_init_def bearer_request_def asset_format_def)

subsection \<open>C3: the guild cache\<close>

text \<open>
  C3. For every User and transport: \<^verbatim>\<open>fetch_guilds(refresh=False)\<close> on an empty cache does
  what \<^verbatim>\<open>fetch_guilds(refresh=True)\<close> does and issues the request
  \<^verbatim>\<open>GET /users/@me/guilds\<close>; on a non-empty cache it issues no request (the transport is
  returned as it was) and returns the cached list, the User unchanged.
\<close>

theorem fetch_guilds_cache:
  "(guilds u = [] \<longrightarrow>
      User_fetch_guilds h u False = User_fetch_guilds h u True
      \<and> sent (fst (snd (User_fetch_guilds h u False)))
          = sent h @ [bearer_request ''/users/@me/guilds'' (User_access_token u)])
   \<and> (guilds u \<noteq> [] \<longrightarrow> User_fetch_guilds h u False = (Inr (guilds u), h, u))"
  by (auto simp: User_fetch_guilds_def HTTPClient_request_def Let_def
           split: sum.splits prod.splits option.splits)

theorem fetch_guilds_cache_witness:
  "guilds (ex_user []) = []
   \<and> User_fetch_guilds (ex_http (Inr (JList []))) (ex_user []) False
       = User_fetch_guilds (ex_http (Inr (JList []))) (ex_user []) True
   \<and> sent (fst (snd (User_fetch_guilds (ex_http (Inr (JList []))) (ex_user []) False)))
       = sent (ex_http (Inr (JList [])))
         @ [bearer_request ''/users/@me/guilds'' (User_access_token (ex_user []))]
   \<and> guilds (ex_user [ex_guild]) \<noteq> []
   \<and> User_fetch_guilds (ex_http (Inr (JList []))) (ex_user [ex_guild]) False
       = (Inr (guilds (ex_user [ex_guild])), ex_http (Inr (JList [])), ex_user [ex_guild])"
proof -
  have e: "guilds (ex_user []) = []" by simp
  have n: "guilds (ex_user [ex_guild]) \<noteq> []" by simp
  from fetch_guilds_cache[of "ex_user []" "ex_http (Inr (JList []))"]
       fetch_guilds_cache[of "ex_user [ex_guild]" "ex_http (Inr (JList []))"] e n
  show ?thesis by blast
qed

subsection \<open>C4: the Guild of models.py\<close>

text \<open>
  C4, as stated, has every JSON map raise a key-lookup error. The line before the lookup,
  \<^verbatim>\<open>self._icon_hash.startswith("a")\<close>, raises AttributeError first when the value of
  \<open>icon\<close> is true and not a str:
\<close>

theorem models_Guild_counterexample:
  "Guild_init (JObj [(''id'', JStr ''19703843''), (''name'', JStr ''guild''), (''icon'', JInt 5)])
      (JStr ''80351110'') = Inl AttributeError"
  by (simp add: Guild_init_def asset_format_def)

text \<open>
  C4, amended. For every JSON map, \<^verbatim>\<open>Guild.__init__\<close> of models.py raises: KeyError on the
  tuple key \<^verbatim>\<open>("id", 0)\<close> when \<open>icon\<close> is missing, false or a str, and AttributeError when
  \<open>icon\<close> is true and not a str. So \<^verbatim>\<open>User.fetch_guilds\<close> raises whenever it issues the
  request and the response is a non-empty list.
\<close>

theorem models_Guild_always_raises:
  "(\<exists>e. Guild_init (JObj m) usr = Inl e)
   \<and> ((map_of m ''icon'' = None \<or> (\<exists>v. map_of m ''icon'' = Some v \<and> \<not> py_truthy v)
        \<or> (\<exists>s. map_of m ''icon'' = Some (JStr s)))
       \<longrightarrow> Guild_init (JObj m) usr = Inl (KeyError (KTuple ''id'' 0)))
   \<and> ((\<exists>v. map_of m ''icon'' = Some v \<and> py_truthy v \<and> (\<forall>s. v \<noteq> JStr s))
       \<longrightarrow> Guild_init (JObj m) usr = Inl AttributeError)
   \<and> ((refresh \<or> guilds u = [])
        \<and> respond h (sent h) (bearer_request ''/users/@me/guilds'' (User_access_token u))
            = Inr (JList (x # xs))
       \<longrightarrow> (\<exists>e. fst (User_fetch_guilds h u refresh) = Inl e))"
proof (intro conjI impI)
  show "\<exists>e. Guild_init (JObj m) usr = Inl e" by (rule Guild_init_raises)
next
  assume "map_of m ''icon'' = None \<or> (\<exists>v. map_of m ''icon'' = Some v \<and> \<not> py_truthy v)
        \<or> (\<exists>s. map_of m ''icon'' = Some (JStr s))"
  then show "Guild_init (JObj m) usr = Inl (KeyError (KTuple ''id'' 0))"
    by (auto simp: Guild_init_dict asset_format_cases)
next
  assume "\<exists>v. map_of m ''icon'' = Some v \<and> py_truthy v \<and> (\<forall>s. v \<noteq> JStr s)"
  then obtain v where v: "map_of m ''icon'' = Some v" "py_truthy v" "\<forall>s. v \<noteq> JStr s" by blast
  then show "Guild_init (JObj m) usr = Inl AttributeError"
    by (cases v) (simp_all add: Guild_init_dict asset_format_cases)
next
  assume a: "(refresh \<or> guilds u = [])
        \<and> respond h (sent h) (bearer_request ''/users/@me/guilds'' (User_access_token u))
            = Inr (JList (x # xs))"
  obtain e where e: "guilds_loop (u\<lparr>guilds := []\<rparr>) (x # xs) = (Some e, u\<lparr>guilds := []\<rparr>)"
    using guilds_loop_raises by blast
  from a e show "\<exists>e. fst (User_fetch_guilds h u refresh) = Inl e"
    by (auto simp: User_fetch_guilds_def HTTPClient_request_def simp del: guilds_loop.simps)
qed


theorem models_Guild_always_raises_witness:
  "Guild_init (JObj (ex_guild_payload JNull)) (JStr ''80351110'') = Inl (KeyError (KTuple ''id'' 0))
   \<and> Guild_init (JObj (ex_guild_payload (JStr ''a_abc123''))) (JStr ''80351110'')
       = Inl (KeyError (KTuple ''id'' 0))
   \<and> Guild_init (JObj (ex_guild_payload (JBool True))) (JStr ''80351110'') = Inl AttributeError
   \<and> (\<exists>e. fst (User_fetch_guilds (ex_http (Inr (JList [JObj (ex_guild_payload JNull)])))
                 (ex_user []) True) = Inl e)"
proof (intro conjI)
  show "Guild_init (JObj (ex_guild_payload JNull)) (JStr ''80351110'') = Inl (KeyError (KTuple ''id'' 0))"
    using models_Guild_always_raises[where m = "ex_guild_payload JNull" and usr = "JStr ''80351110''"]
    by simp
  show "Guild_init (JObj (ex_guild_payload (JStr ''a_abc123''))) (JStr ''80351110'')
       = Inl (KeyError (KTuple ''id'' 0))"
    using models_Guild_always_raises[where m = "ex_guild_payload (JStr ''a_abc123'')" and usr = "JStr ''80351110''"]
    by simp
  show "Guild_init (JObj (ex_guild_payload (JBool True))) (JStr ''80351110'') = Inl AttributeError"
    using models_Guild_always_raises[where m = "ex_guild_payload (JBool True)" and usr = "JStr ''80351110''"]
    by simp
  show "\<exists>e. fst (User_fetch_guilds (ex_http (Inr (JList [JObj (ex_guild_payload JNull)])))
                 (ex_user []) True) = Inl e"
    using models_Guild_always_raises[where refresh = True and u = "ex_user []"
            and h = "ex_http (Inr (JList [JObj (ex_guild_payload JNull)]))"
            and x = "JObj (ex_guild_payload JNull)" and xs = "[]"]
    by simp
qed

subsection \<open>C5 and C6: TokenResponse\<close>

text \<open>
  C5. For every JSON map that holds the five fields \<open>access_token\<close>, \<open>token_type\<close>,
  \<open>expires_in\<close>, \<open>refresh_token\<close> and \<open>scope\<close>, the construction of a TokenResponse
  succeeds, and \<^verbatim>\<open>json()\<close> of the result is the map it was built from.
\<close>

theorem TokenResponse_roundtrip:
  assumes "{''access_token'', ''token_type'', ''expires_in'', ''refresh_token'', ''scope''}
             \<subseteq> fst ` set m"
  shows "\<exists>t. TokenResponse_init (JObj m) = Inr t \<and> TokenResponse_json t = JObj m"
proof -
  from assms obtain a where a: "py_getitem (JObj m) (KStr ''access_token'') = Inr a"
    using getitem_present[of "''access_token''" m] by auto
  from assms obtain b where b: "py_getitem (JObj m) (KStr ''token_type'') = Inr b"
    using getitem_present[of "''token_type''" m] by auto
  from assms obtain c where c: "py_getitem (JObj m) (KStr ''expires_in'') = Inr c"
    using getitem_present[of "''expires_in''" m] by auto
  from assms obtain d where d: "py_getitem (JObj m) (KStr ''refresh_token'') = Inr d"
    using getitem_present[of "''refresh_token''" m] by auto
  from assms obtain e where e: "py_getitem (JObj m) (KStr ''scope'') = Inr e"
    using getitem_present[of "''scope''" m] by auto
  show ?thesis
    by (simp add: TokenResponse_init_def TokenResponse_json_def a b c d e del: py_getitem.simps)
qed

theorem TokenResponse_roundtrip_witness:
  "{''access_token'', ''token_type'', ''expires_in'', ''refresh_token'', ''scope''}
      \<subseteq> fst ` set ex_token_payload
   \<and> (\<exists>t. TokenResponse_init (JObj ex_token_payload) = Inr t
          \<and> TokenResponse_json t = JObj ex_token_payload)"
proof -
  have h: "{''access_token'', ''token_type'', ''expires_in'', ''refresh_token'', ''scope''}
      \<subseteq> fst ` set ex_token_payload" by simp
  from TokenResponse_roundtrip[OF h] h show ?thesis by blast
qed

text \<open>
  C6. For every JSON map that lacks one of the five fields, the construction of a
  TokenResponse raises KeyError, on a field the map lacks; it does not succeed.
\<close>

theorem TokenResponse_missing_field:
  assumes "\<not> {''access_token'', ''token_type'', ''expires_in'', ''refresh_token'', ''scope''}
             \<subseteq> fst ` set m"
  shows "\<exists>k. k \<in> {''access_token'', ''token_type'', ''expires_in'', ''refresh_token'', ''scope''}
           \<and> k \<notin> fst ` set m
           \<and> TokenResponse_init (JObj m) = Inl (KeyError (KStr k))"
proof -
  have pres: "\<And>k. k \<in> fst ` set m \<Longrightarrow> \<exists>v. py_getitem (JObj m) (KStr k) = Inr v"
    using getitem_present by blast
  show ?thesis
  proof (cases "''access_token'' \<in> fst ` set m")
    case False
    then show ?thesis
      using getitem_absent[OF False] by (simp add: TokenResponse_init_def del: py_getitem.simps)
  next
    case k1: True
    then obtain a where a: "py_getitem (JObj m) (KStr ''access_token'') = Inr a" using pres by blast
    show ?thesis
    proof (cases "''token_type'' \<in> fst ` set m")
      case False
      then show ?thesis
        using getitem_absent[OF False] a by (simp add: TokenResponse_init_def del: py_getitem.simps)
    next
      case k2: True
      then obtain b where b: "py_getitem (JObj m) (KStr ''token_type'') = Inr b" using pres by blast
      show ?thesis
      proof (cases "''expires_in'' \<in> fst ` set m")
        case False
        then show ?thesis
          using getitem_absent[OF False] a b by (simp add: TokenResponse_init_def del: py_getitem.simps)
      next
        case k3: True
        then obtain c where c: "py_getitem (JObj m) (KStr ''expires_in'') = Inr c" using pres by blast
        show ?thesis
        proof (cases "''refresh_token'' \<in> fst ` set m")
          case False
          then show ?thesis
            using getitem_absent[OF False] a b c by (simp add: TokenResponse_init_def del: py_getitem.simps)
        next
          case k4: True
          then obtain d where d: "py_getitem (JObj m) (KStr ''refresh_token'') = Inr d" using pres by blast
          from assms k1 k2 k3 k4 have k5: "''scope'' \<notin> fst ` set m" by auto
          show ?thesis
            using getitem_absent[OF k5] k5 a b c d by (simp add: TokenResponse_init_def del: py_getitem.simps)
        qed
      qed
    qed
  qed
qed

theorem TokenResponse_missing_field_witness:
  "\<not> {''access_token'', ''token_type'', ''expires_in'', ''refresh_token'', ''scope''}
        \<subseteq> fst ` set [(''access_token'', JStr ''tok1''), (''token_type'', JStr ''Bearer'')]
   \<and> TokenResponse_init (JObj [(''access_token'', JStr ''tok1''), (''token_type'', JStr ''Bearer'')])
       = Inl (KeyError (KStr ''expires_in''))"
proof -
  have h: "\<not> {''access_token'', ''token_type'', ''expires_in'', ''refresh_token'', ''scope''}
        \<subseteq> fst ` set [(''access_token'', JStr ''tok1''), (''token_type'', JStr ''Bearer'')]" by simp
  from TokenResponse_missing_field[OF h] h show ?thesis
    by (simp add: TokenResponse_init_def)
qed

subsection \<open>C7: User.refresh\<close>

text \<open>
  C7. For every User and transport, when \<^verbatim>\<open>User.refresh()\<close> returns a TokenResponse \<open>t\<close>:
  the transport answered the refresh request with a payload from which
  \<^verbatim>\<open>TokenResponse(data=...)\<close> built \<open>t\<close>; the User afterwards is the User before with
  \<open>t\<close> as its held TokenResponse, so its \<open>access_token\<close> and \<open>refresh_token\<close> are those of
  \<open>t\<close>. (\<open>User_refresh_succeeds\<close> is the converse: such an answer makes the call succeed.)
\<close>

theorem User_refresh_replaces_token:
  assumes "User_refresh h u = (Inr t, h', u')"
  shows "\<exists>cid secret resp.
           map_of (state_info h) ''client_id'' = Some cid
         \<and> map_of (state_info h) ''client_secret'' = Some secret
         \<and> respond h (sent h) (refresh_request cid secret (User_refresh_token u)) = Inr resp
         \<and> TokenResponse_init resp = Inr t
         \<and> h' = h\<lparr>sent := sent h @ [refresh_request cid secret (User_refresh_token u)]\<rparr>
         \<and> u' = u\<lparr>u_acr := t\<rparr>
         \<and> u_acr u' = t
         \<and> User_access_token u' = access_token t
         \<and> User_refresh_token u' = refresh_token t"
  using assms
  by (auto simp: User_refresh_def HTTPClient_request_def Let_def User_access_token_def
                 User_refresh_token_def
           split: sum.splits prod.splits option.splits)

theorem User_refresh_replaces_token_witness:
  "\<exists>t h' u'. User_refresh (ex_refresh_http (Inr (JObj ex_token2_payload))) (ex_user []) = (Inr t, h', u')
      \<and> TokenResponse_init (JObj ex_token2_payload) = Inr t
      \<and> u_acr u' = t
      \<and> User_access_token u' = JStr ''tok2''
      \<and> User_refresh_token u' = JStr ''ref2''
      \<and> sent h' = [refresh_request (JInt 123) (JStr ''s'') (JStr ''ref1'')]"
proof -
  let ?h = "ex_refresh_http (Inr (JObj ex_token2_payload))"
  obtain t h' u' where run: "User_refresh ?h (ex_user []) = (Inr t, h', u')"
    using User_refresh_succeeds[OF ex_refresh_http_state(1,2) _ ex_token2_init, where u = "ex_user []"]
    by (simp add: ex_refresh_http_state)
  from User_refresh_replaces_token[OF run] obtain cid secret resp where
    f: "map_of (state_info ?h) ''client_id'' = Some cid"
       "map_of (state_info ?h) ''client_secret'' = Some secret"
       "respond ?h (sent ?h) (refresh_request cid secret (User_refresh_token (ex_user []))) = Inr resp"
       "TokenResponse_init resp = Inr t"
       "h' = ?h\<lparr>sent := sent ?h @ [refresh_request cid secret (User_refresh_token (ex_user []))]\<rparr>"
       "u_acr u' = t"
       "User_access_token u' = access_token t"
       "User_refresh_token u' = refresh_token t"
    by blast
  from f(1,2) have c: "cid = JInt 123" "secret = JStr ''s''"
    by (simp_all add: ex_refresh_http_state)
  from f(3) have r: "resp = JObj ex_token2_payload"
    by (simp add: ex_refresh_http_state)
  from f(4) r have t: "access_token t = JStr ''tok2''" "refresh_token t = JStr ''ref2''"
    by (auto simp: ex_token2_init)
  from f(5) c have s: "sent h' = [refresh_request (JInt 123) (JStr ''s'') (JStr ''ref1'')]"
    by (simp add: ex_refresh_http_state User_refresh_token_def)
  from run f(4,6,7,8) r t s show ?thesis by auto
qed

subsection \<open>C8 and C9: the authorization URL\<close>

text \<open>
  C8, as stated, has a supplied \<open>state\<close> add the query parameter. \<^verbatim>\<open>if state:\<close> tests the
  truth value, and the empty str is false: \<^verbatim>\<open>auth(state="")\<close> returns the URL without
  \<open>state\<close>.
\<close>

theorem auth_empty_state_counterexample:
  "auth (ex_client (Some [''identify'', ''guilds'']) (Inr JNull)) (Some []) None
     = ''https://discord.com/api/oauth2/authorize?client_id=123&redirect_uri=https://a.test/cb&scope=identify guilds&response_type=code''"
  by (simp add: auth_def OAuth2Client_init_def DISCORD_URL_def str_int_123)

text \<open>
  C8, amended. \<^verbatim>\<open>auth\<close> is a function of the client's id, redirect URI and scopes and of
  its two arguments: it does not read the transport and returns a str only. Without
  arguments it is the authorize URL with \<open>client_id\<close>, \<open>redirect_uri\<close>, \<open>scope\<close> and
  \<open>response_type=code\<close>, in this order; a non-empty \<open>state\<close> appends \<open>&state=...\<close> and a
  non-empty \<open>prompt\<close> appends \<open>&prompt=...\<close>, while None and the empty str append nothing.
  For the client of the scenario, \<^verbatim>\<open>auth(state="xyz")\<close> is the URL of the specification.
\<close>

theorem auth_url:
  "auth (c\<lparr>http := h\<rparr>) state prompt = auth c state prompt
   \<and> auth c None None
       = ''https://discord.com/api/oauth2/authorize?client_id='' @ str_int (c_id c)
         @ ''&redirect_uri='' @ c_redirect c @ ''&scope='' @ str_opt (c_scopes c)
         @ ''&response_type=code''
   \<and> auth c state prompt
       = auth c None None
         @ (case state of None \<Rightarrow> [] | Some s \<Rightarrow> if s = [] then [] else ''&state='' @ s)
         @ (case prompt of None \<Rightarrow> [] | Some p \<Rightarrow> if p = [] then [] else ''&prompt='' @ p)
   \<and> auth (OAuth2Client_init 123 ''s'' ''https://a.test/cb'' (Some [''identify'', ''guilds'']) h0)
          (Some ''xyz'') None
       = ''https://discord.com/api/oauth2/authorize?client_id=123&redirect_uri=https://a.test/cb&scope=identify guilds&response_type=code&state=xyz''"
  by (simp add: auth_def OAuth2Client_init_def DISCORD_URL_def str_int_123 split: option.splits)

text \<open>
  C9. For every client built with \<^verbatim>\<open>scopes=None\<close>, the URL that \<^verbatim>\<open>auth\<close> returns holds the
  segment \<open>&scope=None\<close> between \<open>redirect_uri\<close> and \<open>response_type\<close>, whatever \<open>state\<close>
  and \<open>prompt\<close> are.
\<close>

theorem auth_scope_always_present:
  "auth (OAuth2Client_init client_id client_secret redirect_uri None h0) state prompt
     = ''https://discord.com/api/oauth2/authorize?client_id='' @ str_int client_id
       @ ''&redirect_uri='' @ redirect_uri @ ''&scope=None'' @ ''&response_type=code''
       @ (case state of None \<Rightarrow> [] | Some s \<Rightarrow> if s = [] then [] else ''&state='' @ s)
       @ (case prompt of None \<Rightarrow> [] | Some p \<Rightarrow> if p = [] then [] else ''&prompt='' @ p)"
  by (simp add: auth_def OAuth2Client_init_def DISCORD_URL_def split: option.splits)

subsection \<open>C10: a transport error leaves the User as it was\<close>

text \<open>
  C10. When the transport raises on the request of \<^verbatim>\<open>User.refresh()\<close>, the call raises
  that error and the User is unchanged (its held TokenResponse with it); when it raises on
  the request of \<^verbatim>\<open>User.fetch_guilds(refresh=True)\<close>, the call raises that error and the
  User, its guild cache included, is unchanged.
\<close>

theorem transport_error_leaves_user:
  "(map_of (state_info h) ''client_id'' = Some cid
      \<and> map_of (state_info h) ''client_secret'' = Some secret
      \<and> respond h (sent h) (refresh_request cid secret (User_refresh_token u)) = Inl e
    \<longrightarrow> User_refresh h u
          = (Inl e, h\<lparr>sent := sent h @ [refresh_request cid secret (User_refresh_token u)]\<rparr>, u))
   \<and> (respond h (sent h) (bearer_request ''/users/@me/guilds'' (User_access_token u)) = Inl e
    \<longrightarrow> User_fetch_guilds h u True
          = (Inl e, h\<lparr>sent := sent h @ [bearer_request ''/users/@me/guilds'' (User_access_token u)]\<rparr>, u))"
  by (simp add: User_refresh_def User_fetch_guilds_def HTTPClient_request_def)

theorem transport_error_leaves_user_witness:
  "User_refresh (ex_refresh_http (Inl (Raised AuthError))) (ex_user [ex_guild])
     = (Inl (Raised AuthError),
        (ex_refresh_http (Inl (Raised AuthError)))
          \<lparr>sent := [refresh_request (JInt 123) (JStr ''s'') (JStr ''ref1'')]\<rparr>,
        ex_user [ex_guild])
   \<and> User_fetch_guilds (ex_refresh_http (Inl (Raised AuthError))) (ex_user [ex_guild]) True
     = (Inl (Raised AuthError),
        (ex_refresh_http (Inl (Raised AuthError)))
          \<lparr>sent := [bearer_request ''/users/@me/guilds'' (JStr ''tok1'')]\<rparr>,
        ex_user [ex_guild])"
  using transport_error_leaves_user[of "ex_refresh_http (Inl (Raised AuthError))" "JInt 123"
          "JStr ''s''" "ex_user [ex_guild]" "Raised AuthError"]
  by (simp add: ex_refresh_http_state User_refresh_token_def User_access_token_def)

end
